theory Spec2Isabelle
  imports Complex_Main "HOL-Library.List_Lexorder" "HOL-Library.Char_ord"
begin

section \<open>Data model of the Map page (app/Map/page.tsx)\<close>

text \<open>
  A JavaScript \<^verbatim>\<open>number\<close> is modelled as a rational: every finite double is a rational
  number, and the arithmetic of the page (sums, differences, products with constants,
  \<^verbatim>\<open>Math.floor\<close>, \<^verbatim>\<open>Math.round\<close>) is read exactly. The two non-finite outcomes the
  page could meet, \<^verbatim>\<open>NaN\<close> and \<^verbatim>\<open>Infinity\<close> from a division by zero, are the value
  \<open>None\<close> of \<open>js_div\<close>. A string is a \<^typ>\<open>string\<close>, one \<^typ>\<open>char\<close> per code unit.
\<close>

type_synonym number = rat

record AirPollutionData =
  pm25 :: number
  pm10 :: number
  co :: number
  co2 :: number
  nox :: number
  so2 :: number
  o3 :: number
  voc :: number
  aqi :: number

record ParticleComposition =
  organicCarbon :: number
  blackCarbon :: number
  sulfates :: number
  nitrates :: number
  metals :: number
  dust :: number

record EmissionSource =
  stacks :: number
  vehicles :: number
  processes :: number
  fugitive :: number

record SeasonalVariation =
  winter :: number
  summer :: number
  monsoon :: number

text \<open>
  The interface \<^verbatim>\<open>Factory\<close>. Its field \<^verbatim>\<open>id\<close> is \<open>factory_id\<close> here, since \<open>id\<close> is
  the identity function of HOL.
\<close>

record Factory =
  factory_id :: number
  name :: string
  lat :: number
  lon :: number
  state :: string
  industryType :: string
  products :: string
  yearEstablished :: number
  employees :: number
  pollution :: AirPollutionData
  particleComposition :: ParticleComposition
  emissionSources :: EmissionSource
  complianceScore :: number
  violations :: number
  healthImpactRadius :: number
  populationAffected :: number
  controlMeasures :: "string list"
  seasonalVariation :: SeasonalVariation

section \<open>Numbers\<close>

text \<open>\<^verbatim>\<open>Math.floor\<close>, and \<^verbatim>\<open>Math.round\<close>, which rounds a half towards plus infinity.\<close>

definition Math_floor :: "number \<Rightarrow> number" where
  "Math_floor x = of_int \<lfloor>x\<rfloor>"

definition Math_round :: "number \<Rightarrow> number" where
  "Math_round x = of_int \<lfloor>x + 1 / 2\<rfloor>"

text \<open>
  The operator \<^verbatim>\<open>/\<close>. Dividing by zero gives \<^verbatim>\<open>NaN\<close> or an infinity in JavaScript,
  which is no number of the model: the result is \<open>None\<close>.
\<close>

definition js_div :: "number \<Rightarrow> number \<Rightarrow> number option" where
  "js_div a b = (if b = 0 then None else Some (a / b))"

section \<open>Aggregate statistics: \<^verbatim>\<open>stats\<close>\<close>

record Stats =
  avgAQI :: number
  criticalCount :: number
  totalPopulation :: number
  avgCompliance :: number
  avgPM25 :: number
  totalViolations :: number

text \<open>
  The memoised value \<^verbatim>\<open>stats\<close>, as a function of the flag \<^verbatim>\<open>isClient\<close> and of the
  filtered array; \<^verbatim>\<open>reduce\<close> is \<open>foldl\<close>. The result is \<open>None\<close> when one of the
  divisions has no finite result.
\<close>

definition stats :: "bool \<Rightarrow> Factory list \<Rightarrow> Stats option" where
  "stats isClient filteredFactories =
     (if \<not> isClient
      then Some \<lparr>avgAQI = 0, criticalCount = 0, totalPopulation = 0,
                 avgCompliance = 0, avgPM25 = 0, totalViolations = 0\<rparr>
      else
        case (if length filteredFactories > 0
              then map_option Math_round
                     (js_div (foldl (\<lambda>sum f. sum + aqi (pollution f)) 0 filteredFactories)
                             (of_nat (length filteredFactories)))
              else Some 0) of
          None \<Rightarrow> None
        | Some avgAQI' \<Rightarrow>
        let criticalCount' =
              of_nat (length (filter (\<lambda>f. aqi (pollution f) > 300) filteredFactories));
            totalPopulation' = foldl (\<lambda>sum f. sum + populationAffected f) 0 filteredFactories
        in
        case (if length filteredFactories > 0
              then map_option Math_round
                     (js_div (foldl (\<lambda>sum f. sum + complianceScore f) 0 filteredFactories)
                             (of_nat (length filteredFactories)))
              else Some 0) of
          None \<Rightarrow> None
        | Some avgCompliance' \<Rightarrow>
        case (if length filteredFactories > 0
              then map_option Math_round
                     (js_div (foldl (\<lambda>sum f. sum + pm25 (pollution f)) 0 filteredFactories)
                             (of_nat (length filteredFactories)))
              else Some 0) of
          None \<Rightarrow> None
        | Some avgPM25' \<Rightarrow>
        let totalViolations' = foldl (\<lambda>sum f. sum + violations f) 0 filteredFactories
        in Some \<lparr>avgAQI = avgAQI', criticalCount = criticalCount',
                  totalPopulation = totalPopulation', avgCompliance = avgCompliance',
                  avgPM25 = avgPM25', totalViolations = totalViolations'\<rparr>)"

section \<open>The filter and sort pipeline: \<^verbatim>\<open>filteredFactories\<close>\<close>

text \<open>
  Two string methods of the runtime are locale and implementation dependent. They are
  parameters of the model: \<^verbatim>\<open>String.prototype.toLowerCase\<close> and
  \<^verbatim>\<open>String.prototype.localeCompare\<close> (with no locale argument).
\<close>

record StringMethods =
  toLowerCase :: "string \<Rightarrow> string"
  localeCompare :: "string \<Rightarrow> string \<Rightarrow> number"

text \<open>
  ECMAScript requires \<^verbatim>\<open>localeCompare\<close> to be a consistent comparator, a total
  ordering of all strings. What follows from that and is used here: a pair one way round
  is in order the other way round, and being in order is transitive.
\<close>

definition consistent_comparator :: "('a \<Rightarrow> 'a \<Rightarrow> number) \<Rightarrow> bool" where
  "consistent_comparator cmp \<longleftrightarrow>
     (\<forall>a b. 0 < cmp a b \<longrightarrow> cmp b a \<le> 0) \<and>
     (\<forall>a b c. cmp a b \<le> 0 \<and> cmp b c \<le> 0 \<longrightarrow> cmp a c \<le> 0)"

text \<open>\<^verbatim>\<open>s.includes(t)\<close>: \<open>t\<close> occurs in \<open>s\<close> as a contiguous run of code units.\<close>

fun startsWith :: "string \<Rightarrow> string \<Rightarrow> bool" where
  "startsWith s [] = True"
| "startsWith [] (c # t) = False"
| "startsWith (a # s) (c # t) = (a = c \<and> startsWith s t)"

fun String_includes :: "string \<Rightarrow> string \<Rightarrow> bool" where
  "String_includes [] t = (t = [])"
| "String_includes (a # s) t = (startsWith (a # s) t \<or> String_includes s t)"

text \<open>The state of the page that the pipeline reads.\<close>

record Criteria =
  searchTerm :: string
  selectedState :: string
  selectedIndustry :: string
  aqiRange :: "number \<times> number"
  sortBy :: string
  pollutantFilter :: string

text \<open>
  \<^verbatim>\<open>f.pollution[key]\<close> for a string key: the number in the field of that name. For
  any other string the value is \<^verbatim>\<open>undefined\<close> or a member inherited from
  \<^verbatim>\<open>Object.prototype\<close>, no number either way: \<open>None\<close>.
\<close>

definition pollution_at :: "AirPollutionData \<Rightarrow> string \<Rightarrow> number option" where
  "pollution_at p key =
     (if key = ''pm25'' then Some (pm25 p)
      else if key = ''pm10'' then Some (pm10 p)
      else if key = ''co'' then Some (co p)
      else if key = ''co2'' then Some (co2 p)
      else if key = ''nox'' then Some (nox p)
      else if key = ''so2'' then Some (so2 p)
      else if key = ''o3'' then Some (o3 p)
      else if key = ''voc'' then Some (voc p)
      else if key = ''aqi'' then Some (aqi p)
      else None)"

text \<open>
  The callback of \<^verbatim>\<open>FACTORIES.filter\<close>. A value that is no number converts to
  \<^verbatim>\<open>NaN\<close>, and \<^verbatim>\<open>NaN > 0\<close> is false.
\<close>

definition matches :: "StringMethods \<Rightarrow> Criteria \<Rightarrow> Factory \<Rightarrow> bool" where
  "matches js c f =
     (let matchesSearch = (searchTerm c = [] \<or>
            String_includes (toLowerCase js (name f)) (toLowerCase js (searchTerm c)) \<or>
            String_includes (toLowerCase js (state f)) (toLowerCase js (searchTerm c)) \<or>
            String_includes (toLowerCase js (industryType f)) (toLowerCase js (searchTerm c)));
          matchesState = (selectedState c = ''All'' \<or> state f = selectedState c);
          matchesIndustry = (selectedIndustry c = ''All'' \<or> industryType f = selectedIndustry c);
          matchesAQI = (aqi (pollution f) \<ge> fst (aqiRange c) \<and> aqi (pollution f) \<le> snd (aqiRange c));
          matchesPollutant =
            (if pollutantFilter c \<noteq> ''all''
             then (case pollution_at (pollution f) (pollutantFilter c) of
                     None \<Rightarrow> False
                   | Some v \<Rightarrow> v > 0)
             else True)
      in matchesSearch \<and> matchesState \<and> matchesIndustry \<and> matchesAQI \<and> matchesPollutant)"

text \<open>The callback of \<^verbatim>\<open>filtered.sort\<close>.\<close>

definition compareFn :: "StringMethods \<Rightarrow> Criteria \<Rightarrow> Factory \<Rightarrow> Factory \<Rightarrow> number" where
  "compareFn js c a b =
     (if sortBy c = ''aqi'' then aqi (pollution b) - aqi (pollution a)
      else if sortBy c = ''name'' then localeCompare js (name a) (name b)
      else if sortBy c = ''compliance'' then complianceScore b - complianceScore a
      else if sortBy c = ''population'' then populationAffected b - populationAffected a
      else 0)"

text \<open>
  \<^verbatim>\<open>Array.prototype.sort\<close> with a comparator. ECMAScript (since 2019) requires a
  stable sort: for a consistent comparator the result is the one permutation that is in
  order and keeps the elements that compare equal in their former order. Insertion from
  the right, each element placed before the first one it does not exceed, computes it.
\<close>

fun sort_insert :: "('a \<Rightarrow> 'a \<Rightarrow> number) \<Rightarrow> 'a \<Rightarrow> 'a list \<Rightarrow> 'a list" where
  "sort_insert cmp x [] = [x]"
| "sort_insert cmp x (y # ys) =
     (if cmp x y \<le> 0 then x # y # ys else y # sort_insert cmp x ys)"

fun sorted_by :: "('a \<Rightarrow> 'a \<Rightarrow> number) \<Rightarrow> 'a list \<Rightarrow> 'a list" where
  "sorted_by cmp [] = []"
| "sorted_by cmp (x # xs) = sort_insert cmp x (sorted_by cmp xs)"

text \<open>
  Arrays are objects: \<^verbatim>\<open>filter\<close> allocates a new array, \<^verbatim>\<open>sort\<close> reorders the
  array it is called on. The store holds the arrays, an address is an index into it,
  and a new array goes to the end. The \<^verbatim>\<open>Factory\<close> objects themselves are never
  written after their creation, so an array holds them by value.
\<close>

type_synonym addr = nat
type_synonym store = "Factory list list"

definition array_at :: "store \<Rightarrow> addr \<Rightarrow> Factory list option" where
  "array_at s a = (if a < length s then Some (s ! a) else None)"

definition Array_filter :: "(Factory \<Rightarrow> bool) \<Rightarrow> addr \<Rightarrow> store \<Rightarrow> (addr \<times> store) option" where
  "Array_filter p a s =
     (case array_at s a of
        None \<Rightarrow> None
      | Some xs \<Rightarrow> Some (length s, s @ [filter p xs]))"

definition Array_sort ::
  "(Factory \<Rightarrow> Factory \<Rightarrow> number) \<Rightarrow> addr \<Rightarrow> store \<Rightarrow> (addr \<times> store) option" where
  "Array_sort cmp a s =
     (case array_at s a of
        None \<Rightarrow> None
      | Some xs \<Rightarrow> Some (a, s[a := sorted_by cmp xs]))"

text \<open>
  The memoised value \<^verbatim>\<open>filteredFactories\<close>: \<open>FACTORIES\<close> is the address of the module's
  array, the result is the address of the filtered, sorted array and the new store.
\<close>

definition filteredFactories ::
  "StringMethods \<Rightarrow> Criteria \<Rightarrow> addr \<Rightarrow> store \<Rightarrow> (addr \<times> store) option" where
  "filteredFactories js c FACTORIES s =
     (case Array_filter (matches js c) FACTORIES s of
        None \<Rightarrow> None
      | Some (filtered, s') \<Rightarrow> Array_sort (compareFn js c) filtered s')"

text \<open>
  The array that \<^verbatim>\<open>filteredFactories\<close> returns, as a function of the contents of
  \<^verbatim>\<open>FACTORIES\<close> (lemma \<open>filteredFactories_apply\<close> below).
\<close>

definition apply_criteria :: "StringMethods \<Rightarrow> Factory list \<Rightarrow> Criteria \<Rightarrow> Factory list" where
  "apply_criteria js dataset c = sorted_by (compareFn js c) (filter (matches js c) dataset)"

section \<open>The generator: \<^verbatim>\<open>generateFactories\<close>\<close>

text \<open>
  The tables of the generator. The fields \<^verbatim>\<open>name\<close> of \<^verbatim>\<open>StateInfo\<close> and
  \<^verbatim>\<open>type\<close>, \<^verbatim>\<open>products\<close> of an industry are \<open>state_name\<close>, \<open>industry_type\<close> and
  \<open>industry_products\<close> here, apart from the fields of \<open>Factory\<close>; \<^verbatim>\<open>center\<close> is the
  pair (\<^verbatim>\<open>center[0]\<close>, \<^verbatim>\<open>center[1]\<close>). A decimal literal is the rational it denotes.
\<close>

record StateInfo =
  state_name :: string
  center :: "number \<times> number"
  spread :: number

record IndustryInfo =
  industry_type :: string
  industry_products :: string

definition states :: "StateInfo list" where
  "states =
    [\<lparr>state_name = ''Uttarakhand'', center = (780322 / 10000, 300668 / 10000), spread = 15 / 10\<rparr>,
     \<lparr>state_name = ''Uttar Pradesh'', center = (809462 / 10000, 268467 / 10000), spread = 25 / 10\<rparr>,
     \<lparr>state_name = ''Maharashtra'', center = (757139 / 10000, 197515 / 10000), spread = 25 / 10\<rparr>,
     \<lparr>state_name = ''Gujarat'', center = (711924 / 10000, 222587 / 10000), spread = 2\<rparr>,
     \<lparr>state_name = ''West Bengal'', center = (883639 / 10000, 225726 / 10000), spread = 18 / 10\<rparr>,
     \<lparr>state_name = ''Karnataka'', center = (775946 / 10000, 153173 / 10000), spread = 22 / 10\<rparr>,
     \<lparr>state_name = ''Tamil Nadu'', center = (786569 / 10000, 111271 / 10000), spread = 2\<rparr>,
     \<lparr>state_name = ''Rajasthan'', center = (742179 / 10000, 270238 / 10000), spread = 25 / 10\<rparr>,
     \<lparr>state_name = ''Punjab'', center = (753412 / 10000, 311471 / 10000), spread = 15 / 10\<rparr>,
     \<lparr>state_name = ''Haryana'', center = (760856 / 10000, 290588 / 10000), spread = 13 / 10\<rparr>]"

definition industryTypes :: "IndustryInfo list" where
  "industryTypes =
    [\<lparr>industry_type = ''Steel Manufacturing'',
      industry_products = ''Steel alloys, reinforced bars, structural steel''\<rparr>,
     \<lparr>industry_type = ''Cement Production'',
      industry_products = ''Portland cement, clinker, construction materials''\<rparr>,
     \<lparr>industry_type = ''Chemical Processing'',
      industry_products = ''Industrial chemicals, solvents, acids''\<rparr>,
     \<lparr>industry_type = ''Thermal Power'',
      industry_products = ''Electricity generation from coal combustion''\<rparr>,
     \<lparr>industry_type = ''Oil Refinery'',
      industry_products = ''Refined petroleum, diesel, lubricants''\<rparr>,
     \<lparr>industry_type = ''Pharmaceutical'',
      industry_products = ''API manufacturing, bulk drugs, formulations''\<rparr>,
     \<lparr>industry_type = ''Textile Dyeing'',
      industry_products = ''Dyed fabrics, processed textiles''\<rparr>,
     \<lparr>industry_type = ''Fertilizer Plant'',
      industry_products = ''Nitrogen fertilizers, urea, ammonia''\<rparr>,
     \<lparr>industry_type = ''Plastic Manufacturing'',
      industry_products = ''Polymer products, plastic packaging''\<rparr>,
     \<lparr>industry_type = ''Paper Mill'',
      industry_products = ''Paper pulp, packaging materials''\<rparr>,
     \<lparr>industry_type = ''Glass Manufacturing'',
      industry_products = ''Float glass, container glass''\<rparr>,
     \<lparr>industry_type = ''Aluminum Smelting'',
      industry_products = ''Primary aluminum, alloys''\<rparr>,
     \<lparr>industry_type = ''Battery Production'',
      industry_products = ''Lead-acid batteries, lithium cells''\<rparr>,
     \<lparr>industry_type = ''Paint Manufacturing'',
      industry_products = ''Industrial paints, coatings''\<rparr>,
     \<lparr>industry_type = ''Brick Kiln'',
      industry_products = ''Clay bricks, construction materials''\<rparr>]"

text \<open>The local array \<^verbatim>\<open>controlMeasures\<close> of the generator.\<close>

definition controlMeasures_catalog :: "string list" where
  "controlMeasures_catalog =
    [''Electrostatic Precipitators'',
     ''Bag Filters'',
     ''Scrubbers'',
     ''Catalytic Converters'',
     ''Cyclone Separators'',
     ''Carbon Adsorption'',
     ''Stack Height Optimization'',
     ''Continuous Emission Monitoring'']"

text \<open>
  \<^verbatim>\<open>xs[i]\<close> for a number \<open>i\<close>: \<^verbatim>\<open>undefined\<close> (\<open>None\<close>) unless \<open>i\<close> is an integer
  within the array. The generator reads a field of the element at once, which throws on
  \<^verbatim>\<open>undefined\<close>: \<open>None\<close> is then the result of the whole generator.
\<close>

definition element_at :: "'a list \<Rightarrow> number \<Rightarrow> 'a option" where
  "element_at xs i =
     (if i = of_int \<lfloor>i\<rfloor> \<and> 0 \<le> i \<and> i < of_nat (length xs) then Some (xs ! nat \<lfloor>i\<rfloor>) else None)"

text \<open>
  \<^verbatim>\<open>xs.slice(0, endIndex)\<close>: \<open>endIndex\<close> is truncated to an integer, counts from the
  end of the array when negative, and is clamped to the array.
\<close>

definition slice_from_0 :: "'a list \<Rightarrow> number \<Rightarrow> 'a list" where
  "slice_from_0 xs endIndex =
     (let relativeEnd = (if endIndex < 0 then \<lceil>endIndex\<rceil> else \<lfloor>endIndex\<rfloor>);
          final = (if relativeEnd < 0 then max (int (length xs) + relativeEnd) 0
                   else min relativeEnd (int (length xs)))
      in take (nat final) xs)"

text \<open>
  \<^verbatim>\<open>parseFloat(x.toFixed(d))\<close>: the multiple of \<open>1 / 10 ^ d\<close> nearest to \<open>x\<close>, the one
  further from zero of two; from \<open>10 ^ 21\<close> on \<^verbatim>\<open>toFixed\<close> prints \<open>x\<close> itself.
\<close>

definition toFixed_number :: "nat \<Rightarrow> number \<Rightarrow> number" where
  "toFixed_number d x =
     (if \<bar>x\<bar> \<ge> 10 ^ 21 then x
      else if x < 0 then - (of_int \<lfloor>(- x) * 10 ^ d + 1 / 2\<rfloor> / 10 ^ d)
      else of_int \<lfloor>x * 10 ^ d + 1 / 2\<rfloor> / 10 ^ d)"

text \<open>\<^verbatim>\<open>String(i)\<close> for a natural number, \<^verbatim>\<open>padStart\<close>, and \<^verbatim>\<open>s.split(' ')[0]\<close>.\<close>

definition digit_char :: "nat \<Rightarrow> char" where
  "digit_char d = ''0123456789'' ! (d mod 10)"

function String_of_nat :: "nat \<Rightarrow> string" where
  "String_of_nat n =
     (if n < 10 then [digit_char n] else String_of_nat (n div 10) @ [digit_char (n mod 10)])"
  by pat_completeness auto
termination
  by (relation "measure (\<lambda>n. n)") auto

declare String_of_nat.simps [simp del]

definition padStart :: "nat \<Rightarrow> char \<Rightarrow> string \<Rightarrow> string" where
  "padStart targetLength c s = replicate (targetLength - length s) c @ s"

definition split_first :: "char \<Rightarrow> string \<Rightarrow> string" where
  "split_first sep s = takeWhile (\<lambda>ch. ch \<noteq> sep) s"

text \<open>
  One round of the loop of \<^verbatim>\<open>generateFactories\<close>, for the counter \<open>i\<close>. The round
  calls \<^verbatim>\<open>Math.random()\<close> 33 times; \<open>r j\<close> is the value of its call number \<open>j\<close>, in the
  order of evaluation. The constants \<^verbatim>\<open>0.4\<close> and \<^verbatim>\<open>1.8\<close> are \<open>2/5\<close> and \<open>9/5\<close>, the
  constant \<^verbatim>\<open>0.5\<close> is \<open>1/2\<close>.
\<close>

definition loop_body :: "nat \<Rightarrow> (nat \<Rightarrow> number) \<Rightarrow> Factory option" where
  "loop_body i r =
     (case element_at states (Math_floor (r 0 * of_nat (length states))) of
        None \<Rightarrow> None
      | Some state' \<Rightarrow>
     (let lat' = snd (center state') + (r 1 - 1 / 2) * spread state';
          lon' = fst (center state') + (r 2 - 1 / 2) * spread state'
      in
      case element_at industryTypes (Math_floor (r 3 * of_nat (length industryTypes))) of
        None \<Rightarrow> None
      | Some industry \<Rightarrow>
     (let baseAQI = Math_floor (r 4 * 450) + 50;
          pm25' = Math_floor (baseAQI * (2 / 5) + r 5 * 50);
          pm10' = Math_floor (pm25' * (9 / 5) + r 6 * 30)
      in Some
        \<lparr>factory_id = of_nat i,
         name = split_first CHR '' '' (industry_type industry) @ '' Facility '' @
                  padStart 3 CHR ''0'' (String_of_nat i),
         lat = toFixed_number 6 lat',
         lon = toFixed_number 6 lon',
         state = state_name state',
         industryType = industry_type industry,
         products = industry_products industry,
         yearEstablished = Math_floor (r 7 * 45) + 1975,
         employees = Math_floor (r 8 * 3000) + 200,
         pollution =
           \<lparr>pm25 = pm25',
            pm10 = pm10',
            co = toFixed_number 2 (r 9 * 15 + 2),
            co2 = Math_floor (r 10 * 800 + 400),
            nox = Math_floor (r 11 * 150 + 30),
            so2 = Math_floor (r 12 * 200 + 40),
            o3 = Math_floor (r 13 * 120 + 20),
            voc = toFixed_number 1 (r 14 * 500 + 100),
            aqi = baseAQI\<rparr>,
         particleComposition =
           \<lparr>organicCarbon = toFixed_number 1 (r 15 * 30 + 10),
            blackCarbon = toFixed_number 1 (r 16 * 20 + 5),
            sulfates = toFixed_number 1 (r 17 * 25 + 8),
            nitrates = toFixed_number 1 (r 18 * 20 + 6),
            metals = toFixed_number 1 (r 19 * 10 + 2),
            dust = toFixed_number 1 (r 20 * 30 + 15)\<rparr>,
         emissionSources =
           \<lparr>stacks = Math_floor (r 21 * 50 + 20),
            vehicles = Math_floor (r 22 * 30 + 10),
            processes = Math_floor (r 23 * 40 + 15),
            fugitive = Math_floor (r 24 * 25 + 5)\<rparr>,
         complianceScore = Math_floor (r 25 * 100),
         violations = Math_floor (r 26 * 15),
         healthImpactRadius = toFixed_number 1 (r 27 * 8 + 2),
         populationAffected = Math_floor (r 28 * 100000 + 10000),
         controlMeasures = slice_from_0 controlMeasures_catalog (Math_floor (r 29 * 5) + 2),
         seasonalVariation =
           \<lparr>winter = Math_floor (r 30 * 40 + 80),
            summer = Math_floor (r 31 * 30 + 60),
            monsoon = Math_floor (r 32 * 25 + 50)\<rparr>\<rparr>)))"

text \<open>
  The loop \<^verbatim>\<open>for (let i = 1; i <= count; i++)\<close> with its array \<^verbatim>\<open>factories\<close>. The
  whole run draws from one sequence \<open>random\<close> of values of \<^verbatim>\<open>Math.random()\<close>, and \<open>k\<close>
  counts the values drawn so far. The source has the literal 300 for \<open>count\<close>.
\<close>

function generateFactories_loop ::
  "nat \<Rightarrow> nat \<Rightarrow> (nat \<Rightarrow> number) \<Rightarrow> nat \<Rightarrow> Factory list \<Rightarrow> Factory list option" where
  "generateFactories_loop count i random k factories =
     (if i \<le> count
      then (case loop_body i (\<lambda>j. random (k + j)) of
              None \<Rightarrow> None
            | Some f \<Rightarrow> generateFactories_loop count (i + 1) random (k + 33) (factories @ [f]))
      else Some factories)"
  by pat_completeness auto
termination
  by (relation "measure (\<lambda>(count, i, random, k, factories). count + 1 - i)") auto

declare generateFactories_loop.simps [simp del]

definition generateFactories_upto :: "nat \<Rightarrow> (nat \<Rightarrow> number) \<Rightarrow> Factory list option" where
  "generateFactories_upto count random = generateFactories_loop count 1 random 0 []"

definition generateFactories :: "(nat \<Rightarrow> number) \<Rightarrow> Factory list option" where
  "generateFactories random = generateFactories_upto 300 random"

text \<open>What \<^verbatim>\<open>Math.random()\<close> promises of each value: it is at least 0 and less than 1.\<close>

definition unit_interval :: "(nat \<Rightarrow> number) \<Rightarrow> bool" where
  "unit_interval random \<longleftrightarrow> (\<forall>k. 0 \<le> random k \<and> random k < 1)"

section \<open>Example data\<close>

text \<open>
  The keys of the interface \<^verbatim>\<open>AirPollutionData\<close>, the type that the filter callback
  casts \<^verbatim>\<open>pollutantFilter\<close> to; the eight pollutants that the select of the page offers
  are the first eight. Then the initial state of the page (the arguments of its
  \<^verbatim>\<open>useState\<close> calls).
\<close>

definition AirPollutionData_keys :: "string list" where
  "AirPollutionData_keys =
     [''pm25'', ''pm10'', ''co'', ''co2'', ''nox'', ''so2'', ''o3'', ''voc'', ''aqi'']"

definition initial_criteria :: Criteria where
  "initial_criteria =
     \<lparr>searchTerm = [], selectedState = ''All'', selectedIndustry = ''All'',
      aqiRange = (0, 500), sortBy = ''aqi'', pollutantFilter = ''all''\<rparr>"

text \<open>
  A runtime for the examples: lower case for the letters A to Z only, and comparison of
  strings by their code units.
\<close>

definition ascii_lower :: "char \<Rightarrow> char" where
  "ascii_lower ch =
     (if CHR ''A'' \<le> ch \<and> ch \<le> CHR ''Z'' then char_of (of_char ch + (32 :: nat)) else ch)"

definition codeunit_methods :: StringMethods where
  "codeunit_methods =
     \<lparr>toLowerCase = map ascii_lower,
      localeCompare = (\<lambda>a b. if a = b then 0 else if a < b then - 1 else 1)\<rparr>"

text \<open>A record for the examples: its id, name and AQI are given, the rest is fixed.\<close>

definition example_factory :: "number \<Rightarrow> string \<Rightarrow> number \<Rightarrow> Factory" where
  "example_factory i n a =
     \<lparr>factory_id = i, name = n, lat = 30, lon = 78, state = ''Punjab'',
      industryType = ''Paper Mill'', products = ''Paper pulp, packaging materials'',
      yearEstablished = 1990, employees = 500,
      pollution = \<lparr>pm25 = 60, pm10 = 110, co = 5, co2 = 600, nox = 50, so2 = 60,
                   o3 = 40, voc = 200, aqi = a\<rparr>,
      particleComposition = \<lparr>organicCarbon = 20, blackCarbon = 10, sulfates = 10,
                             nitrates = 10, metals = 5, dust = 20\<rparr>,
      emissionSources = \<lparr>stacks = 30, vehicles = 20, processes = 20, fugitive = 10\<rparr>,
      complianceScore = 70, violations = 2, healthImpactRadius = 5,
      populationAffected = 20000,
      controlMeasures = [''Electrostatic Precipitators'', ''Bag Filters''],
      seasonalVariation = \<lparr>winter = 100, summer = 70, monsoon = 60\<rparr>\<rparr>"

definition example_dataset :: "Factory list" where
  "example_dataset =
     [example_factory 1 ''Steel Facility 001'' 450,
      example_factory 2 ''Paper Facility 002'' 120,
      example_factory 3 ''Oil Facility 003'' 310,
      example_factory 4 ''Brick Facility 004'' 75,
      example_factory 5 ''Glass Facility 005'' 500]"

section \<open>Properties of the statistics\<close>

lemma js_div_length: "xs \<noteq> [] \<Longrightarrow> js_div a (of_nat (length xs)) = Some (a / of_nat (length xs))"
  by (simp add: js_div_def)

lemma stats_Nil:
  "stats isClient [] = Some \<lparr>avgAQI = 0, criticalCount = 0, totalPopulation = 0,
                             avgCompliance = 0, avgPM25 = 0, totalViolations = 0\<rparr>"
  by (simp add: stats_def)

lemma stats_total: "\<exists>s. stats isClient xs = Some s"
  by (cases "xs = []") (simp_all add: stats_def js_div_length Let_def)

section \<open>Properties of the stable sort\<close>

lemma set_sort_insert: "set (sort_insert cmp x xs) = insert x (set xs)"
  by (induction xs) auto

lemma set_sorted_by: "set (sorted_by cmp xs) = set xs"
  by (induction xs) (auto simp: set_sort_insert)

lemma sorted_sort_insert:
  assumes "consistent_comparator cmp" "sorted_wrt (\<lambda>a b. cmp a b \<le> 0) xs"
  shows "sorted_wrt (\<lambda>a b. cmp a b \<le> 0) (sort_insert cmp x xs)"
  using assms(2)
proof (induction xs)
  case Nil
  then show ?case by simp
next
  case (Cons y ys)
  show ?case
  proof (cases "cmp x y \<le> 0")
    case True
    have "\<forall>z\<in>set ys. cmp x z \<le> 0"
      using True Cons.prems assms(1) unfolding consistent_comparator_def
      by (metis sorted_wrt.simps(2))
    with True Cons.prems show ?thesis by simp
  next
    case False
    then have "cmp y x \<le> 0"
      using assms(1) unfolding consistent_comparator_def by (meson not_le)
    with False Cons show ?thesis by (auto simp: set_sort_insert)
  qed
qed

lemma sorted_sorted_by:
  "consistent_comparator cmp \<Longrightarrow> sorted_wrt (\<lambda>a b. cmp a b \<le> 0) (sorted_by cmp xs)"
  by (induction xs) (simp_all add: sorted_sort_insert)

text \<open>Sorting an array that is in order already leaves every element in its place.\<close>

lemma sorted_by_in_order:
  "sorted_wrt (\<lambda>a b. cmp a b \<le> 0) xs \<Longrightarrow> sorted_by cmp xs = xs"
proof (induction xs)
  case Nil
  then show ?case by simp
next
  case (Cons x xs)
  then have "sorted_by cmp xs = xs" by simp
  moreover have "sort_insert cmp x xs = x # xs"
    using Cons.prems by (cases xs) simp_all
  ultimately show ?case by simp
qed

section \<open>Properties of the pipeline\<close>

lemma consistent_compareFn:
  assumes "sortBy c = ''name'' \<longrightarrow> consistent_comparator (localeCompare js)"
  shows "consistent_comparator (compareFn js c)"
proof (cases "sortBy c = ''name''")
  case True
  then have "compareFn js c = (\<lambda>a b. localeCompare js (name a) (name b))"
    by (intro ext) (simp add: compareFn_def)
  moreover have "consistent_comparator (localeCompare js)"
    using assms True by simp
  ultimately show ?thesis
    unfolding consistent_comparator_def by (metis (no_types, lifting))
next
  case False
  then show ?thesis
    unfolding consistent_comparator_def compareFn_def by auto
qed

lemma set_apply_criteria:
  "set (apply_criteria js dataset c) = {f \<in> set dataset. matches js c f}"
  by (auto simp: apply_criteria_def set_sorted_by)

lemma filter_apply_criteria:
  "filter (matches js c) (apply_criteria js dataset c) = apply_criteria js dataset c"
  by (simp add: apply_criteria_def set_sorted_by)

lemma sorted_apply_criteria:
  assumes "sortBy c = ''name'' \<longrightarrow> consistent_comparator (localeCompare js)"
  shows "sorted_wrt (\<lambda>a b. compareFn js c a b \<le> 0) (apply_criteria js dataset c)"
  unfolding apply_criteria_def
  by (rule sorted_sorted_by) (rule consistent_compareFn [OF assms])

text \<open>
  The store version of the pipeline returns a new array, at the end of the store, that
  holds \<open>apply_criteria\<close> of the contents of \<^verbatim>\<open>FACTORIES\<close>.
\<close>

lemma filteredFactories_apply:
  assumes "array_at s FACTORIES = Some dataset"
  shows "filteredFactories js c FACTORIES s =
           Some (length s, s @ [apply_criteria js dataset c])"
  using assms
  by (simp add: filteredFactories_def Array_filter_def Array_sort_def array_at_def
      apply_criteria_def split: if_splits)

section \<open>Properties of the generator\<close>

lemma Math_floor_ge: "of_int z \<le> x \<Longrightarrow> of_int z \<le> Math_floor x"
  by (simp add: Math_floor_def le_floor_iff)

lemma Math_floor_scaled:
  assumes "0 \<le> r" "r < 1" "0 < n"
  shows "\<exists>k < n. Math_floor (r * of_nat n) = of_nat k"
proof -
  have "0 \<le> r * of_nat n" using assms by simp
  then have nonneg: "0 \<le> \<lfloor>r * of_nat n\<rfloor>" by simp
  have "r * of_nat n < of_nat n" using assms by simp
  then have "\<lfloor>r * of_nat n\<rfloor> < int n"
    by (simp add: floor_less_iff)
  with nonneg have "nat \<lfloor>r * of_nat n\<rfloor> < n" by linarith
  moreover have "Math_floor (r * of_nat n) = of_nat (nat \<lfloor>r * of_nat n\<rfloor>)"
    using nonneg by (simp add: Math_floor_def)
  ultimately show ?thesis by blast
qed

lemma element_at_of_nat: "k < length xs \<Longrightarrow> element_at xs (of_nat k) = Some (xs ! k)"
  by (simp add: element_at_def)

lemma element_at_random:
  assumes "0 \<le> r" "r < 1" "xs \<noteq> []"
  shows "\<exists>x. element_at xs (Math_floor (r * of_nat (length xs))) = Some x"
proof -
  obtain k where "k < length xs" "Math_floor (r * of_nat (length xs)) = of_nat k"
    using Math_floor_scaled [OF assms(1,2), of "length xs"] assms(3) by auto
  then show ?thesis by (simp add: element_at_of_nat)
qed

lemma toFixed_ge_1:
  assumes "1 \<le> x"
  shows "1 \<le> toFixed_number d x"
proof (cases "\<bar>x\<bar> \<ge> 10 ^ 21")
  case True
  then show ?thesis using assms by (simp add: toFixed_number_def)
next
  case False
  have "(10::rat) ^ d \<le> x * 10 ^ d"
    using mult_right_mono [of 1 x "10 ^ d"] assms by simp
  moreover have "rat_of_int (10 ^ d) = 10 ^ d" by simp
  ultimately have "rat_of_int (10 ^ d) \<le> x * 10 ^ d + 1 / 2" by linarith
  then have "10 ^ d \<le> \<lfloor>x * 10 ^ d + 1 / 2\<rfloor>" by (simp only: le_floor_iff)
  then have "(10::rat) ^ d \<le> of_int \<lfloor>x * 10 ^ d + 1 / 2\<rfloor>"
    by (metis of_int_le_iff of_int_numeral of_int_power)
  then have "1 \<le> of_int \<lfloor>x * 10 ^ d + 1 / 2\<rfloor> / (10::rat) ^ d"
    by (simp add: le_divide_eq)
  with False assms show ?thesis by (simp add: toFixed_number_def)
qed

lemma slice_from_0_of_nat: "slice_from_0 xs (of_nat m) = take m xs"
  by (simp add: slice_from_0_def Let_def min_def)

lemma slice_prefix:
  assumes "0 \<le> r" "r < 1"
  shows "\<exists>k. 2 \<le> k \<and> k \<le> 6 \<and>
     slice_from_0 controlMeasures_catalog (Math_floor (r * 5) + 2) = take k controlMeasures_catalog"
proof -
  obtain k where k: "k < 5" "Math_floor (r * of_nat 5) = of_nat k"
    using Math_floor_scaled [OF assms, of 5] by auto
  then have "Math_floor (r * 5) + 2 = of_nat (k + 2)" by simp
  then have "slice_from_0 controlMeasures_catalog (Math_floor (r * 5) + 2)
      = take (k + 2) controlMeasures_catalog"
    by (simp only: slice_from_0_of_nat)
  with k(1) show ?thesis by (intro exI [of _ "k + 2"]) simp
qed


lemma states_nonempty: "states \<noteq> []"
  by (simp add: states_def)

lemma industryTypes_nonempty: "industryTypes \<noteq> []"
  by (simp add: industryTypes_def)

lemma loop_body_fields:
  assumes "\<forall>j. 0 \<le> r j \<and> r j < 1"
  shows "\<exists>f. loop_body i r = Some f \<and> factory_id f = of_nat i \<and>
    aqi (pollution f) = Math_floor (r 4 * 450) + 50 \<and>
    pm25 (pollution f) = Math_floor (aqi (pollution f) * (2 / 5) + r 5 * 50) \<and>
    pm10 (pollution f) = Math_floor (pm25 (pollution f) * (9 / 5) + r 6 * 30) \<and>
    co (pollution f) = toFixed_number 2 (r 9 * 15 + 2) \<and>
    co2 (pollution f) = Math_floor (r 10 * 800 + 400) \<and>
    nox (pollution f) = Math_floor (r 11 * 150 + 30) \<and>
    so2 (pollution f) = Math_floor (r 12 * 200 + 40) \<and>
    o3 (pollution f) = Math_floor (r 13 * 120 + 20) \<and>
    voc (pollution f) = toFixed_number 1 (r 14 * 500 + 100) \<and>
    controlMeasures f = slice_from_0 controlMeasures_catalog (Math_floor (r 29 * 5) + 2)"
proof -
  obtain st where st: "element_at states (Math_floor (r 0 * of_nat (length states))) = Some st"
    using element_at_random [OF _ _ states_nonempty, of "r 0"] assms by blast
  obtain ind where ind:
    "element_at industryTypes (Math_floor (r 3 * of_nat (length industryTypes))) = Some ind"
    using element_at_random [OF _ _ industryTypes_nonempty, of "r 3"] assms by blast
  show ?thesis
    by (simp add: loop_body_def st ind Let_def)
qed


lemma unit_interval_shift: "unit_interval random \<Longrightarrow> \<forall>j. 0 \<le> random (k + j) \<and> random (k + j) < 1"
  by (simp add: unit_interval_def)

lemma generateFactories_loop_rounds:
  assumes "unit_interval random"
  shows "\<exists>fs. generateFactories_loop count i random k factories = Some (factories @ fs) \<and>
           length fs = count + 1 - i \<and>
           (\<forall>m < length fs. loop_body (i + m) (\<lambda>j. random (k + 33 * m + j)) = Some (fs ! m))"
  using assms
proof (induction count i random k factories rule: generateFactories_loop.induct)
  case (1 count i random k factories)
  show ?case
  proof (cases "i \<le> count")
    case False
    then have "generateFactories_loop count i random k factories = Some factories"
      by (subst generateFactories_loop.simps) simp
    with False show ?thesis by simp
  next
    case True
    obtain f where f: "loop_body i (\<lambda>j. random (k + j)) = Some f"
      using loop_body_fields [OF unit_interval_shift [OF "1.prems", of k], of i] by blast
    obtain fs where run: "generateFactories_loop count (i + 1) random (k + 33) (factories @ [f])
           = Some ((factories @ [f]) @ fs)"
      and len: "length fs = count + 1 - (i + 1)"
      and rounds: "\<forall>m < length fs.
           loop_body (i + 1 + m) (\<lambda>j. random (k + 33 + 33 * m + j)) = Some (fs ! m)"
      using "1.IH" [OF True f "1.prems"] by blast
    have "generateFactories_loop count i random k factories = Some (factories @ (f # fs))"
      using run by (subst generateFactories_loop.simps) (simp add: True f)
    moreover have "length (f # fs) = count + 1 - i"
      using len True by simp
    moreover have "loop_body (i + m) (\<lambda>j. random (k + 33 * m + j)) = Some ((f # fs) ! m)"
      if "m < length (f # fs)" for m
    proof (cases m)
      case 0
      then show ?thesis by (simp add: f)
    next
      case (Suc m')
      then have "m' < length fs" using that by simp
      then have "loop_body (i + 1 + m') (\<lambda>j. random (k + 33 + 33 * m' + j)) = Some (fs ! m')"
        using rounds by blast
      moreover have "(\<lambda>j. random (k + 33 + 33 * m' + j)) = (\<lambda>j. random (k + 33 * m + j))"
        by (simp add: Suc add.assoc)
      ultimately show ?thesis by (simp add: Suc)
    qed
    ultimately show ?thesis by blast
  qed
qed

lemma generateFactories_upto_rounds:
  assumes "unit_interval random"
  shows "\<exists>fs. generateFactories_upto count random = Some fs \<and> length fs = count \<and>
           (\<forall>m < count. loop_body (m + 1) (\<lambda>j. random (33 * m + j)) = Some (fs ! m))"
  using generateFactories_loop_rounds [OF assms, of count 1 0 "[]"]
  by (auto simp: generateFactories_upto_def add.commute)

lemma generated_record:
  assumes "unit_interval random" "generateFactories_upto count random = Some fs" "f \<in> set fs"
  shows "\<exists>i r. 1 \<le> i \<and> i \<le> count \<and> (\<forall>j. 0 \<le> r j \<and> r j < 1) \<and> loop_body i r = Some f"
proof -
  obtain fs' where fs': "generateFactories_upto count random = Some fs'" "length fs' = count"
    "\<forall>m < count. loop_body (m + 1) (\<lambda>j. random (33 * m + j)) = Some (fs' ! m)"
    using generateFactories_upto_rounds [OF assms(1)] by blast
  then have "fs' = fs" using assms(2) by simp
  then obtain m where m: "m < count" "f = fs' ! m"
    using assms(3) fs'(2) by (auto simp: in_set_conv_nth)
  then have "loop_body (m + 1) (\<lambda>j. random (33 * m + j)) = Some f"
    using fs'(3) by simp
  moreover have "\<forall>j. 0 \<le> random (33 * m + j) \<and> random (33 * m + j) < 1"
    by (rule unit_interval_shift [OF assms(1)])
  ultimately show ?thesis using m(1)
    by (intro exI [of _ "m + 1"] exI [of _ "\<lambda>j. random (33 * m + j)"]) simp
qed

lemma Math_floor_scaled_nonneg: "0 \<le> r \<Longrightarrow> 0 \<le> a \<Longrightarrow> 0 \<le> Math_floor (r * a)"
  by (simp add: Math_floor_def)

lemma loop_body_pollution:
  assumes "\<forall>j. 0 \<le> r j \<and> r j < 1" "loop_body i r = Some f"
  shows "50 \<le> aqi (pollution f) \<and> 20 \<le> pm25 (pollution f) \<and>
     pm25 (pollution f) < pm10 (pollution f) \<and>
     1 \<le> co (pollution f) \<and> 400 \<le> co2 (pollution f) \<and> 30 \<le> nox (pollution f) \<and>
     40 \<le> so2 (pollution f) \<and> 20 \<le> o3 (pollution f) \<and> 1 \<le> voc (pollution f)"
proof -
  have r: "0 \<le> r j" "r j < 1" for j using assms(1) by simp_all
  obtain g where g: "loop_body i r = Some g"
    "aqi (pollution g) = Math_floor (r 4 * 450) + 50"
    "pm25 (pollution g) = Math_floor (aqi (pollution g) * (2 / 5) + r 5 * 50)"
    "pm10 (pollution g) = Math_floor (pm25 (pollution g) * (9 / 5) + r 6 * 30)"
    "co (pollution g) = toFixed_number 2 (r 9 * 15 + 2)"
    "co2 (pollution g) = Math_floor (r 10 * 800 + 400)"
    "nox (pollution g) = Math_floor (r 11 * 150 + 30)"
    "so2 (pollution g) = Math_floor (r 12 * 200 + 40)"
    "o3 (pollution g) = Math_floor (r 13 * 120 + 20)"
    "voc (pollution g) = toFixed_number 1 (r 14 * 500 + 100)"
    using loop_body_fields [OF assms(1), of i] by blast
  have fg: "g = f" using g(1) assms(2) by simp
  have a: "50 \<le> aqi (pollution g)"
    using Math_floor_scaled_nonneg [OF r(1) [of 4], of 450] by (simp add: g(2))
  have "of_int 20 \<le> aqi (pollution g) * (2 / 5) + r 5 * 50"
    using a r(1) [of 5] by simp
  then have p: "20 \<le> pm25 (pollution g)"
    unfolding g(3) using Math_floor_ge [of 20] by simp
  obtain z where z: "pm25 (pollution g) = of_int z"
    by (auto simp: g(3) Math_floor_def)
  have "of_int (z + 1) \<le> pm25 (pollution g) * (9 / 5) + r 6 * 30"
    using p r(1) [of 6] by (simp add: z)
  then have "of_int (z + 1) \<le> pm10 (pollution g)"
    unfolding g(4) by (rule Math_floor_ge)
  then have q: "pm25 (pollution g) < pm10 (pollution g)"
    by (simp add: z)
  have c: "1 \<le> co (pollution g)"
    unfolding g(5) using r(1) [of 9] by (intro toFixed_ge_1) simp
  have "of_int 400 \<le> r 10 * 800 + 400" using r(1) [of 10] by simp
  then have c2: "400 \<le> co2 (pollution g)"
    unfolding g(6) using Math_floor_ge [of 400] by simp
  have "of_int 30 \<le> r 11 * 150 + 30" using r(1) [of 11] by simp
  then have n: "30 \<le> nox (pollution g)"
    unfolding g(7) using Math_floor_ge [of 30] by simp
  have "of_int 40 \<le> r 12 * 200 + 40" using r(1) [of 12] by simp
  then have s: "40 \<le> so2 (pollution g)"
    unfolding g(8) using Math_floor_ge [of 40] by simp
  have "of_int 20 \<le> r 13 * 120 + 20" using r(1) [of 13] by simp
  then have o: "20 \<le> o3 (pollution g)"
    unfolding g(9) using Math_floor_ge [of 20] by simp
  have v: "1 \<le> voc (pollution g)"
    unfolding g(10) using r(1) [of 14] by (intro toFixed_ge_1) simp
  show ?thesis
    using a p q c c2 n s o v unfolding fg by simp
qed

lemma generated_pollution:
  assumes "unit_interval random" "generateFactories_upto count random = Some fs" "f \<in> set fs"
  shows "50 \<le> aqi (pollution f) \<and> 20 \<le> pm25 (pollution f) \<and>
     pm25 (pollution f) < pm10 (pollution f) \<and>
     1 \<le> co (pollution f) \<and> 400 \<le> co2 (pollution f) \<and> 30 \<le> nox (pollution f) \<and>
     40 \<le> so2 (pollution f) \<and> 20 \<le> o3 (pollution f) \<and> 1 \<le> voc (pollution f)"
proof -
  obtain i r where "\<forall>j. 0 \<le> r j \<and> r j < 1" "loop_body i r = Some f"
    using generated_record [OF assms] by blast
  then show ?thesis by (rule loop_body_pollution)
qed

lemma generateFactories_upto_total:
  "unit_interval random \<Longrightarrow> \<exists>fs. generateFactories_upto count random = Some fs"
  using generateFactories_upto_rounds by blast

lemma loop_body_controlMeasures:
  assumes "\<forall>j. 0 \<le> r j \<and> r j < 1" "loop_body i r = Some f"
  shows "\<exists>k. 2 \<le> k \<and> k \<le> 6 \<and> controlMeasures f = take k controlMeasures_catalog"
proof -
  obtain g where g: "loop_body i r = Some g"
    "controlMeasures g = slice_from_0 controlMeasures_catalog (Math_floor (r 29 * 5) + 2)"
    using loop_body_fields [OF assms(1), of i] by blast
  then have "g = f" using assms(2) by simp
  then show ?thesis
    using slice_prefix [of "r 29"] assms(1) g(2) by simp
qed

lemma take_catalog_hd:
  "2 \<le> k \<Longrightarrow> hd (take k controlMeasures_catalog) = ''Electrostatic Precipitators''"
  by (cases k) (simp_all add: controlMeasures_catalog_def)

lemma matches_pollutant_focus:
  assumes "p \<in> set AirPollutionData_keys"
    and "0 < pm25 (pollution f)" "0 < pm10 (pollution f)" "0 < co (pollution f)"
      "0 < co2 (pollution f)" "0 < nox (pollution f)" "0 < so2 (pollution f)"
      "0 < o3 (pollution f)" "0 < voc (pollution f)" "0 < aqi (pollution f)"
  shows "matches js (c\<lparr>pollutantFilter := p\<rparr>) f = matches js (c\<lparr>pollutantFilter := ''all''\<rparr>) f"
proof -
  have "\<exists>v. pollution_at (pollution f) p = Some v \<and> 0 < v"
    using assms by (auto simp: AirPollutionData_keys_def pollution_at_def)
  then show ?thesis
    by (auto simp: matches_def)
qed

section \<open>The example data evaluated\<close>

lemma consistent_codeunit_methods: "consistent_comparator (localeCompare codeunit_methods)"
  by (auto simp: consistent_comparator_def codeunit_methods_def split: if_splits)

lemma unit_interval_half: "unit_interval (\<lambda>k. 1 / 2)"
  by (simp add: unit_interval_def)

lemma example_pm:
  "map_option (map (\<lambda>f. (pm25 (pollution f), pm10 (pollution f))))
     (generateFactories_upto 1 (\<lambda>k. 1 / 2)) = Some [(135, 258)]"
  by code_simp

lemma example_ids:
  "map_option (map factory_id) (generateFactories_upto 3 (\<lambda>k. 1 / 2)) = Some [1, 2, 3]"
  by code_simp

lemma example_controlMeasures:
  "map_option (map controlMeasures) (generateFactories_upto 1 (\<lambda>k. 1 / 2))
    = Some [[''Electrostatic Precipitators'', ''Bag Filters'', ''Scrubbers'',
             ''Catalytic Converters'']]"
  by code_simp

lemma example_range_100_400:
  "apply_criteria codeunit_methods example_dataset
      (initial_criteria\<lparr>aqiRange := (100, 400), sortBy := ''aqi''\<rparr>)
    = [example_factory 3 ''Oil Facility 003'' 310, example_factory 2 ''Paper Facility 002'' 120]"
  by (simp add: example_dataset_def example_factory_def apply_criteria_def matches_def
      compareFn_def initial_criteria_def)

lemma example_name_order:
  "map name (apply_criteria codeunit_methods example_dataset
               (initial_criteria\<lparr>sortBy := ''name''\<rparr>))
     = [''Brick Facility 004'', ''Glass Facility 005'', ''Oil Facility 003'',
        ''Paper Facility 002'', ''Steel Facility 001'']"
  by (simp add: apply_criteria_def example_dataset_def example_factory_def
      initial_criteria_def matches_def compareFn_def codeunit_methods_def)

text \<open>The three records and the average 168 of the example belong to the range [75, 400].\<close>

lemma example_range_75_400:
  "map (\<lambda>f. aqi (pollution f))
     (apply_criteria codeunit_methods example_dataset
        (initial_criteria\<lparr>aqiRange := (75, 400), sortBy := ''aqi''\<rparr>)) = [310, 120, 75]"
  by (simp add: example_dataset_def example_factory_def apply_criteria_def matches_def
      compareFn_def initial_criteria_def)

text \<open>
  The store does record a mutation: sorting the array \<^verbatim>\<open>FACTORIES\<close> itself, instead of
  the copy that \<^verbatim>\<open>filter\<close> made, changes what the store holds there.
\<close>

lemma example_sort_in_place:
  "map_option (\<lambda>(a, s). (a, map (map (\<lambda>f. aqi (pollution f))) s))
     (Array_sort (compareFn codeunit_methods initial_criteria) 0 [example_dataset])
   = Some (0, [[500, 450, 310, 120, 75]])"
  by (simp add: Array_sort_def array_at_def example_dataset_def example_factory_def
      compareFn_def initial_criteria_def)

section \<open>The claims\<close>

text \<open>
  C1 (as amended). For a dataset of 5 records whose AQI values are 450, 120, 310, 75, 500
  the pipeline with the AQI range [100, 400], every other filter at its initial value and
  \<^verbatim>\<open>sortBy = "aqi"\<close>, yields exactly the 2 records with AQI 310 and 120, in that order:
  75 is below the lower end of the range. On that output \<^verbatim>\<open>stats\<close> (on the client)
  gives \<open>avgAQI = round((310 + 120) / 2) = 215\<close> and \<open>criticalCount = 1\<close>.
\<close>

theorem end_to_end_example:
  assumes "map (\<lambda>f. aqi (pollution f)) dataset = [450, 120, 310, 75, 500]"
  shows "map (\<lambda>f. aqi (pollution f))
           (apply_criteria js dataset
              (initial_criteria\<lparr>aqiRange := (100, 400), sortBy := ''aqi''\<rparr>))
         = [310, 120]
       \<and> (\<exists>st. stats True
                 (apply_criteria js dataset
                    (initial_criteria\<lparr>aqiRange := (100, 400), sortBy := ''aqi''\<rparr>)) = Some st
               \<and> avgAQI st = 215 \<and> criticalCount st = 1)"
proof -
  obtain f1 f2 f3 f4 f5 where ds: "dataset = [f1, f2, f3, f4, f5]"
    and a: "aqi (pollution f1) = 450" "aqi (pollution f2) = 120" "aqi (pollution f3) = 310"
      "aqi (pollution f4) = 75" "aqi (pollution f5) = 500"
    using assms by (auto simp: map_eq_Cons_conv)
  have out: "apply_criteria js dataset
      (initial_criteria\<lparr>aqiRange := (100, 400), sortBy := ''aqi''\<rparr>) = [f3, f2]"
    by (simp add: ds a apply_criteria_def matches_def compareFn_def initial_criteria_def)
  have "\<lfloor>(431::rat) / 2\<rfloor> = 215" by (simp add: floor_eq_iff)
  then show ?thesis
    unfolding out by (simp add: a stats_def js_div_def Math_round_def)
qed

theorem end_to_end_example_witness:
  "map (\<lambda>f. aqi (pollution f)) example_dataset = [450, 120, 310, 75, 500]
   \<and> map (\<lambda>f. aqi (pollution f))
       (apply_criteria codeunit_methods example_dataset
          (initial_criteria\<lparr>aqiRange := (100, 400), sortBy := ''aqi''\<rparr>)) = [310, 120]
   \<and> (\<exists>st. stats True
             (apply_criteria codeunit_methods example_dataset
                (initial_criteria\<lparr>aqiRange := (100, 400), sortBy := ''aqi''\<rparr>)) = Some st
           \<and> avgAQI st = 215 \<and> criticalCount st = 1)"
proof -
  have h: "map (\<lambda>f. aqi (pollution f)) example_dataset = [450, 120, 310, 75, 500]"
    by (simp add: example_dataset_def example_factory_def)
  show ?thesis
    using h end_to_end_example [OF h, of codeunit_methods] by simp
qed

text \<open>
  C1 as stated fails: on the example dataset the output for the range [100, 400] is not
  the three records with AQI 310, 120, 75, and the average AQI is not 168.
\<close>

theorem range_100_400_excludes_75:
  "map (\<lambda>f. aqi (pollution f))
     (apply_criteria codeunit_methods example_dataset
        (initial_criteria\<lparr>aqiRange := (100, 400), sortBy := ''aqi''\<rparr>)) \<noteq> [310, 120, 75]
   \<and> map_option avgAQI
       (stats True
          (apply_criteria codeunit_methods example_dataset
             (initial_criteria\<lparr>aqiRange := (100, 400), sortBy := ''aqi''\<rparr>))) \<noteq> Some 168"
proof -
  have "\<lfloor>(431::rat) / 2\<rfloor> = 215" by (simp add: floor_eq_iff)
  then show ?thesis
    unfolding example_range_100_400
    by (simp add: example_factory_def stats_def js_div_def Math_round_def)
qed

text \<open>
  C2. On the empty array every field of \<^verbatim>\<open>stats\<close> is 0 and the count shown beside it,
  the array's length, is 0, whatever \<^verbatim>\<open>isClient\<close> is; and on every array each division
  by the length is guarded, so \<^verbatim>\<open>stats\<close> always has a finite result (never the
  \<open>None\<close> of a division by zero).
\<close>

theorem stats_empty:
  "stats isClient [] = Some \<lparr>avgAQI = 0, criticalCount = 0, totalPopulation = 0,
                             avgCompliance = 0, avgPM25 = 0, totalViolations = 0\<rparr>
   \<and> length ([] :: Factory list) = 0
   \<and> (\<exists>s. stats isClient xs = Some s)"
  using stats_Nil [of isClient] stats_total [of isClient xs] by simp

text \<open>
  C3 (as amended). For the generated dataset the inequality PM10 \<ge> PM2.5 holds for every
  choice of the random values: the generator returns, and every record has PM2.5 \<ge> 20
  and PM10 > PM2.5, so both are positive. The noise added to PM10 is never negative and
  1.8 times PM2.5 exceeds PM2.5 by at least 16.
\<close>

theorem pm10_exceeds_pm25:
  assumes "unit_interval random"
  shows "\<exists>fs. generateFactories_upto count random = Some fs \<and>
           (\<forall>f \<in> set fs. 20 \<le> pm25 (pollution f) \<and> pm25 (pollution f) < pm10 (pollution f))"
proof -
  obtain fs where fs: "generateFactories_upto count random = Some fs"
    using generateFactories_upto_total [OF assms] by blast
  then have "\<forall>f \<in> set fs. 20 \<le> pm25 (pollution f) \<and> pm25 (pollution f) < pm10 (pollution f)"
    using generated_pollution [OF assms fs] by blast
  with fs show ?thesis by blast
qed

theorem pm10_exceeds_pm25_witness:
  "unit_interval (\<lambda>k. 1 / 2) \<and>
   (\<exists>fs. generateFactories_upto 1 (\<lambda>k. 1 / 2) = Some fs \<and>
      map (\<lambda>f. (pm25 (pollution f), pm10 (pollution f))) fs = [(135, 258)] \<and>
      (\<forall>f \<in> set fs. 20 \<le> pm25 (pollution f) \<and> pm25 (pollution f) < pm10 (pollution f)))"
  using pm10_exceeds_pm25 [OF unit_interval_half, of 1] unit_interval_half example_pm
  by auto

text \<open>
  C3 as stated fails: no choice of the random values makes \<^verbatim>\<open>generateFactories\<close> return
  a record whose PM10 is less than its PM2.5.
\<close>

theorem pm10_below_pm25_never:
  "\<not> (\<exists>random fs f. unit_interval random \<and> generateFactories random = Some fs \<and>
         f \<in> set fs \<and> pm10 (pollution f) < pm25 (pollution f))"
proof
  assume "\<exists>random fs f. unit_interval random \<and> generateFactories random = Some fs \<and>
         f \<in> set fs \<and> pm10 (pollution f) < pm25 (pollution f)"
  then obtain random fs f where u: "unit_interval random"
    and g: "generateFactories_upto 300 random = Some fs" and f: "f \<in> set fs"
    and lt: "pm10 (pollution f) < pm25 (pollution f)"
    by (auto simp: generateFactories_def)
  have "pm25 (pollution f) < pm10 (pollution f)"
    using generated_pollution [OF u g f] by simp
  with lt show False by simp
qed

text \<open>
  C4. Applying the pipeline twice with the same criteria yields the same sequence as
  applying it once, for every dataset and every criteria. Under \<^verbatim>\<open>sortBy = "name"\<close>
  this rests on what ECMAScript requires of \<^verbatim>\<open>localeCompare\<close>.
\<close>

theorem filter_idempotent:
  assumes "sortBy c = ''name'' \<longrightarrow> consistent_comparator (localeCompare js)"
  shows "apply_criteria js (apply_criteria js dataset c) c = apply_criteria js dataset c"
proof -
  have "sorted_by (compareFn js c) (apply_criteria js dataset c) = apply_criteria js dataset c"
    using sorted_apply_criteria [OF assms] by (rule sorted_by_in_order)
  moreover have "apply_criteria js (apply_criteria js dataset c) c
      = sorted_by (compareFn js c) (filter (matches js c) (apply_criteria js dataset c))"
    by (simp add: apply_criteria_def)
  ultimately show ?thesis by (simp add: filter_apply_criteria)
qed

theorem filter_idempotent_witness:
  "sortBy (initial_criteria\<lparr>aqiRange := (100, 400), sortBy := ''name''\<rparr>) = ''name''
   \<and> consistent_comparator (localeCompare codeunit_methods)
   \<and> apply_criteria codeunit_methods
       (apply_criteria codeunit_methods example_dataset
          (initial_criteria\<lparr>aqiRange := (100, 400), sortBy := ''name''\<rparr>))
       (initial_criteria\<lparr>aqiRange := (100, 400), sortBy := ''name''\<rparr>)
     = apply_criteria codeunit_methods example_dataset
         (initial_criteria\<lparr>aqiRange := (100, 400), sortBy := ''name''\<rparr>)"
  using filter_idempotent [of "initial_criteria\<lparr>aqiRange := (100, 400), sortBy := ''name''\<rparr>"
      codeunit_methods example_dataset] consistent_codeunit_methods
  by simp

text \<open>
  C5. For every count N and every run of the generator (every sequence of values of
  \<^verbatim>\<open>Math.random()\<close>), the generator returns a sequence of length exactly N whose ids
  are 1, 2, ..., N in this order: each id is unique and lies in [1, N]. The generator
  has no failure mode.
\<close>

theorem generateFactories_ids:
  assumes "unit_interval random"
  shows "\<exists>fs. generateFactories_upto count random = Some fs \<and> length fs = count \<and>
           map factory_id fs = map of_nat [1..<count + 1] \<and>
           distinct (map factory_id fs) \<and>
           (\<forall>f \<in> set fs. \<exists>i. 1 \<le> i \<and> i \<le> count \<and> factory_id f = of_nat i)"
proof -
  obtain fs where fs: "generateFactories_upto count random = Some fs" "length fs = count"
    and rounds: "\<forall>m < count. loop_body (m + 1) (\<lambda>j. random (33 * m + j)) = Some (fs ! m)"
    using generateFactories_upto_rounds [OF assms] by blast
  have ids: "factory_id (fs ! m) = of_nat (m + 1)" if "m < count" for m
    using loop_body_fields [OF unit_interval_shift [OF assms, of "33 * m"], of "m + 1"]
      rounds that by auto
  have eq: "map factory_id fs = map of_nat [1..<count + 1]"
    by (rule nth_equalityI) (simp_all add: fs(2) ids del: upt_Suc of_nat_Suc)
  have "inj (of_nat :: nat \<Rightarrow> rat)" by (simp add: inj_on_def)
  then have "distinct (map factory_id fs)"
    unfolding eq by (simp add: distinct_map inj_on_def)
  moreover have "\<forall>f \<in> set fs. \<exists>i. 1 \<le> i \<and> i \<le> count \<and> factory_id f = of_nat i"
  proof
    fix f assume "f \<in> set fs"
    then obtain m where "m < count" "f = fs ! m"
      using fs(2) by (auto simp: in_set_conv_nth)
    then show "\<exists>i. 1 \<le> i \<and> i \<le> count \<and> factory_id f = of_nat i"
      using ids [of m] by (intro exI [of _ "m + 1"]) simp
  qed
  ultimately show ?thesis using fs eq by blast
qed

theorem generateFactories_ids_witness:
  "unit_interval (\<lambda>k. 1 / 2) \<and>
   (\<exists>fs. generateFactories (\<lambda>k. 1 / 2) = Some fs \<and> length fs = 300 \<and>
      map factory_id fs = map of_nat [1..<301] \<and> distinct (map factory_id fs)) \<and>
   (\<exists>fs. generateFactories_upto 3 (\<lambda>k. 1 / 2) = Some fs \<and> map factory_id fs = [1, 2, 3])"
  using generateFactories_ids [OF unit_interval_half, of 300]
    generateFactories_ids [OF unit_interval_half, of 3] unit_interval_half example_ids
  by (auto simp: generateFactories_def)

text \<open>
  C6. The pipeline does not mutate its input: when \<^verbatim>\<open>FACTORIES\<close> is an array of the
  store, \<^verbatim>\<open>filteredFactories\<close> returns a different array, and afterwards \<^verbatim>\<open>FACTORIES\<close>
  and every other array that existed before hold what they held before.
\<close>

theorem filteredFactories_frame:
  assumes "array_at s FACTORIES = Some dataset"
  shows "\<exists>filtered s'. filteredFactories js c FACTORIES s = Some (filtered, s')
           \<and> filtered \<noteq> FACTORIES
           \<and> array_at s' FACTORIES = Some dataset
           \<and> (\<forall>a < length s. array_at s' a = array_at s a)"
proof -
  have "FACTORIES < length s"
    using assms by (simp add: array_at_def split: if_splits)
  moreover have "\<forall>a < length s. array_at (s @ [apply_criteria js dataset c]) a = array_at s a"
    by (simp add: array_at_def nth_append)
  ultimately show ?thesis
    using filteredFactories_apply [OF assms, of js c] assms by auto
qed

theorem filteredFactories_frame_witness:
  "array_at [example_dataset] 0 = Some example_dataset
   \<and> (\<exists>filtered s'.
         filteredFactories codeunit_methods (initial_criteria\<lparr>aqiRange := (100, 400)\<rparr>) 0
           [example_dataset] = Some (filtered, s')
         \<and> filtered \<noteq> 0
         \<and> array_at s' 0 = Some example_dataset)"
proof -
  have h: "array_at [example_dataset] 0 = Some example_dataset"
    by (simp add: array_at_def)
  show ?thesis
    using h filteredFactories_frame [OF h, of codeunit_methods
        "initial_criteria\<lparr>aqiRange := (100, 400)\<rparr>"]
    by blast
qed

text \<open>
  C7. Every record in the output of the pipeline has its AQI within the inclusive range
  of the criteria: \<open>min \<le> aqi \<le> max\<close>, for every dataset and criteria.
\<close>

theorem aqi_range_sound:
  "\<forall>f \<in> set (apply_criteria js dataset c).
     fst (aqiRange c) \<le> aqi (pollution f) \<and> aqi (pollution f) \<le> snd (aqiRange c)"
  by (simp add: set_apply_criteria matches_def Let_def)

theorem aqi_range_sound_witness:
  "example_factory 3 ''Oil Facility 003'' 310
     \<in> set (apply_criteria codeunit_methods example_dataset
              (initial_criteria\<lparr>aqiRange := (100, 400)\<rparr>))
   \<and> 100 \<le> aqi (pollution (example_factory 3 ''Oil Facility 003'' 310))
   \<and> aqi (pollution (example_factory 3 ''Oil Facility 003'' 310)) \<le> 400"
proof -
  have m: "example_factory 3 ''Oil Facility 003'' 310
     \<in> set (apply_criteria codeunit_methods example_dataset
              (initial_criteria\<lparr>aqiRange := (100, 400)\<rparr>))"
    by (simp add: set_apply_criteria example_dataset_def matches_def initial_criteria_def
        example_factory_def)
  show ?thesis
    using m aqi_range_sound [of codeunit_methods example_dataset
        "initial_criteria\<lparr>aqiRange := (100, 400)\<rparr>"]
    by (auto simp: initial_criteria_def)
qed

text \<open>
  C8. With the sort key \<^verbatim>\<open>name\<close> the output of the pipeline is non-decreasing under
  the locale comparison of the names: no record is followed, anywhere later, by one
  whose name \<^verbatim>\<open>localeCompare\<close> puts before its own.
\<close>

theorem sorted_by_name:
  assumes "sortBy c = ''name''" "consistent_comparator (localeCompare js)"
  shows "sorted_wrt (\<lambda>a b. localeCompare js (name a) (name b) \<le> 0)
           (apply_criteria js dataset c)"
proof -
  have "compareFn js c = (\<lambda>a b. localeCompare js (name a) (name b))"
    using assms(1) by (intro ext) (simp add: compareFn_def)
  then show ?thesis
    using sorted_apply_criteria [of c js dataset] assms by simp
qed

theorem sorted_by_name_witness:
  "sortBy (initial_criteria\<lparr>sortBy := ''name''\<rparr>) = ''name''
   \<and> consistent_comparator (localeCompare codeunit_methods)
   \<and> sorted_wrt (\<lambda>a b. localeCompare codeunit_methods (name a) (name b) \<le> 0)
       (apply_criteria codeunit_methods example_dataset (initial_criteria\<lparr>sortBy := ''name''\<rparr>))
   \<and> map name (apply_criteria codeunit_methods example_dataset
                 (initial_criteria\<lparr>sortBy := ''name''\<rparr>))
     = [''Brick Facility 004'', ''Glass Facility 005'', ''Oil Facility 003'',
        ''Paper Facility 002'', ''Steel Facility 001'']"
proof -
  have h: "sortBy (initial_criteria\<lparr>sortBy := ''name''\<rparr>) = ''name''" by simp
  show ?thesis
    using h example_name_order consistent_codeunit_methods
      sorted_by_name [OF h consistent_codeunit_methods, of example_dataset]
    by simp
qed

text \<open>
  C9. Every pollutant concentration of every generated record is greater than zero, so
  on a generated dataset the pipeline with the pollutant focus on any one pollutant (any
  key of \<^verbatim>\<open>AirPollutionData\<close>) returns the same sequence as with the same criteria and
  no pollutant focus (the option \<^verbatim>\<open>all\<close> of the page).
\<close>

theorem pollutant_focus_identity:
  assumes "unit_interval random" "p \<in> set AirPollutionData_keys"
  shows "\<exists>fs. generateFactories_upto count random = Some fs \<and>
           (\<forall>f \<in> set fs. 0 < pm25 (pollution f) \<and> 0 < pm10 (pollution f) \<and>
              0 < co (pollution f) \<and> 0 < co2 (pollution f) \<and> 0 < nox (pollution f) \<and>
              0 < so2 (pollution f) \<and> 0 < o3 (pollution f) \<and> 0 < voc (pollution f) \<and>
              0 < aqi (pollution f)) \<and>
           apply_criteria js fs (c\<lparr>pollutantFilter := p\<rparr>)
             = apply_criteria js fs (c\<lparr>pollutantFilter := ''all''\<rparr>)"
proof -
  obtain fs where fs: "generateFactories_upto count random = Some fs"
    using generateFactories_upto_total [OF assms(1)] by blast
  have pos: "0 < pm25 (pollution f) \<and> 0 < pm10 (pollution f) \<and>
              0 < co (pollution f) \<and> 0 < co2 (pollution f) \<and> 0 < nox (pollution f) \<and>
              0 < so2 (pollution f) \<and> 0 < o3 (pollution f) \<and> 0 < voc (pollution f) \<and>
              0 < aqi (pollution f)"
    if "f \<in> set fs" for f
    using generated_pollution [OF assms(1) fs that] by simp
  have "filter (matches js (c\<lparr>pollutantFilter := p\<rparr>)) fs
      = filter (matches js (c\<lparr>pollutantFilter := ''all''\<rparr>)) fs"
    by (rule filter_cong [OF refl]) (simp add: matches_pollutant_focus [OF assms(2)] pos)
  moreover have "compareFn js (c\<lparr>pollutantFilter := p\<rparr>)
      = compareFn js (c\<lparr>pollutantFilter := ''all''\<rparr>)"
    by (intro ext) (simp add: compareFn_def)
  ultimately have "apply_criteria js fs (c\<lparr>pollutantFilter := p\<rparr>)
             = apply_criteria js fs (c\<lparr>pollutantFilter := ''all''\<rparr>)"
    by (simp add: apply_criteria_def)
  with fs pos show ?thesis by blast
qed

theorem pollutant_focus_identity_witness:
  "unit_interval (\<lambda>k. 1 / 2) \<and> ''so2'' \<in> set AirPollutionData_keys \<and>
   (\<exists>fs. generateFactories (\<lambda>k. 1 / 2) = Some fs \<and>
      apply_criteria codeunit_methods fs (initial_criteria\<lparr>pollutantFilter := ''so2''\<rparr>)
        = apply_criteria codeunit_methods fs (initial_criteria\<lparr>pollutantFilter := ''all''\<rparr>))"
proof -
  have h: "''so2'' \<in> set AirPollutionData_keys" by (simp add: AirPollutionData_keys_def)
  show ?thesis
    using pollutant_focus_identity [OF unit_interval_half h, of 300 codeunit_methods
        initial_criteria] unit_interval_half h
    by (auto simp: generateFactories_def)
qed

text \<open>
  C10. For every generated record the list \<^verbatim>\<open>controlMeasures\<close> is exactly the first k
  elements of the catalog of 8, in catalog order, for some k from 2 to 6; so every list
  begins with 'Electrostatic Precipitators'. The selection is a prefix of random length,
  not a random subset.
\<close>

theorem controlMeasures_prefix:
  assumes "unit_interval random"
  shows "\<exists>fs. generateFactories_upto count random = Some fs \<and>
           (\<forall>f \<in> set fs. \<exists>k. 2 \<le> k \<and> k \<le> 6 \<and>
                controlMeasures f = take k controlMeasures_catalog \<and>
                hd (controlMeasures f) = ''Electrostatic Precipitators'')"
proof -
  obtain fs where fs: "generateFactories_upto count random = Some fs"
    using generateFactories_upto_total [OF assms] by blast
  have "\<exists>k. 2 \<le> k \<and> k \<le> 6 \<and> controlMeasures f = take k controlMeasures_catalog \<and>
                hd (controlMeasures f) = ''Electrostatic Precipitators''"
    if mem: "f \<in> set fs" for f
  proof -
    obtain i r where "\<forall>j. 0 \<le> r j \<and> r j < 1" "loop_body i r = Some f"
      using generated_record [OF assms fs mem] by blast
    then obtain k where "2 \<le> k" "k \<le> 6" "controlMeasures f = take k controlMeasures_catalog"
      using loop_body_controlMeasures by blast
    then show ?thesis using take_catalog_hd [of k] by auto
  qed
  with fs show ?thesis by blast
qed

theorem controlMeasures_prefix_witness:
  "unit_interval (\<lambda>k. 1 / 2) \<and>
   (\<exists>fs. generateFactories_upto 1 (\<lambda>k. 1 / 2) = Some fs \<and>
      map controlMeasures fs = [take 4 controlMeasures_catalog] \<and>
      (\<forall>f \<in> set fs. \<exists>k. 2 \<le> k \<and> k \<le> 6 \<and>
                controlMeasures f = take k controlMeasures_catalog \<and>
                hd (controlMeasures f) = ''Electrostatic Precipitators''))"
  using controlMeasures_prefix [OF unit_interval_half, of 1] unit_interval_half
    example_controlMeasures
  by (auto simp: controlMeasures_catalog_def)

end
